theory Spec2Isabelle
  imports Complex_Main "HOL-Library.Word"
begin

section \<open>The Bedrock summariser: data model\<close>

text \<open>
  The program (\<^verbatim>\<open>main.go\<close>) fetches an article over HTTP, wraps a prompt in the
  Human/Assistant template, marshals a \<^verbatim>\<open>Request\<close> to JSON, invokes the hosted model and
  unmarshals the \<^verbatim>\<open>completion\<close> field of the answer.

  A Go string is a \<^typ>\<open>string\<close>. Go's \<^verbatim>\<open>int\<close> is a 64-bit word. A
  \<^verbatim>\<open>float64\<close> is either a finite number, an infinity or a NaN; the finite ones are
  kept as the rational they denote, and the two zeroes of IEEE 754 are one value here.
  The functions of \<^verbatim>\<open>main.go\<close> are modelled; \<^verbatim>\<open>main\<close> itself hands control to
  the chain of the langchaingo library and is not.
\<close>

datatype float64 = Finite rat | PosInf | NegInf | NaN

text \<open>
  Errors are values. \<^verbatim>\<open>errors.New\<close> builds \<open>New\<close>; the JSON encoder refuses a float
  that is not finite with an \<^verbatim>\<open>UnsupportedValueError\<close>; every other error comes from a
  library call of the environment and is carried as it is.
\<close>

datatype error = New string | UnsupportedValueError float64 | Library string

text \<open>
  What a call can do: return its value, return an error, panic (a run-time error of the
  Go runtime), or end the process through \<^verbatim>\<open>log.Fatal\<close>, which logs the error and calls
  \<^verbatim>\<open>os.Exit(1)\<close> without running deferred calls.
\<close>

datatype 'a outcome = Returns 'a | Fails error | Panics string | Exits error

text \<open>
  A JSON document, with the members of an object in the order they are written. A
  document is the value that is transmitted: a string member holds the UTF-8 bytes of
  the string a decoder reads back (the escapes of the byte rendering are below this
  level).
\<close>

datatype json = JString string | JNumber rat | JArray "json list" | JObject "(string \<times> json) list"

fun json_field :: "string \<Rightarrow> json \<Rightarrow> json option" where
  "json_field k (JObject kvs) = map_of kvs k"
| "json_field k (JString s) = None"
| "json_field k (JNumber n) = None"
| "json_field k (JArray js) = None"

definition format :: string where
  "format = ''\<newline>\<newline>Human:%s\<newline>\<newline>Assistant:''"

definition modelID :: string where
  "modelID = ''anthropic.claude-v2''"

definition prompt :: string where
  "prompt = ''Give me a summary with maximum of 150 words. Add 3 hashtags at the end to publish on Twitter.''"

record Request =
  Prompt :: string
  MaxTokensToSample :: "64 word"
  Temperature :: float64
  TopP :: float64
  TopK :: "64 word"
  StopSequences :: "string list"

record Response =
  Completion :: string

text \<open>
  \<^verbatim>\<open>llms.Generation\<close>, \<^verbatim>\<open>llms.CallOptions\<close> and \<^verbatim>\<open>schema.Document\<close> belong to the
  langchaingo library; only the fields the program reads or writes are kept. A
  \<^verbatim>\<open>CallOption\<close> is a function that updates the options in place. Field names are
  global in a theory, so the fields of \<^verbatim>\<open>CallOptions\<close> that \<^verbatim>\<open>Request\<close> also has
  carry the suffix \<open>_opt\<close>, the bodies of the Bedrock input and output are \<open>Body_in\<close>
  and \<open>Body_out\<close>, and the field \<^verbatim>\<open>modelID\<close> of \<^verbatim>\<open>Model\<close> is \<open>model_ID\<close>.
\<close>

record Generation =
  Text :: string

record CallOptions =
  MaxTokens :: "64 word"
  Temperature_opt :: float64
  StopWords :: "string list"
  TopK_opt :: "64 word"
  TopP_opt :: float64

type_synonym CallOption = "CallOptions \<Rightarrow> CallOptions"

definition WithMaxTokens :: "64 word \<Rightarrow> CallOption" where
  "WithMaxTokens n = (\<lambda>opts. opts\<lparr>MaxTokens := n\<rparr>)"

definition WithTemperature :: "float64 \<Rightarrow> CallOption" where
  "WithTemperature t = (\<lambda>opts. opts\<lparr>Temperature_opt := t\<rparr>)"

record Document =
  PageContent :: string
  Metadata :: "(string \<times> string) list"

text \<open>
  A callback handler is an interface value; the program only tests it against nil and
  notifies it, so a handler is its identity and a notification is an event.
\<close>

datatype Handler = Handler nat

record Model =
  CallbacksHandler :: "Handler option"
  useHumanAssistantPrompt :: bool
  model_ID :: string

record http_Response =
  StatusCode :: int
  Body :: string

record InvokeModelInput =
  Body_in :: json
  ModelId :: string
  ContentType :: string

record InvokeModelOutput =
  Body_out :: string

text \<open>
  The effects of the program, in the order they happen: the notifications of the handler,
  the request sent to the inference endpoint, the HTTP GET, what is written to standard
  output, the release of the HTTP body, and the message \<^verbatim>\<open>log.Fatal\<close> logs.
\<close>

datatype event =
    HandleLLMStart Handler "string list"
  | HandleLLMEnd Handler "Generation list list"
  | InvokeModel InvokeModelInput
  | HttpGet string
  | Stdout string
  | BodyClose
  | LogFatal error

text \<open>
  The collaborators the program calls and does not implement: the HTTP client, the HTML
  document loader, the inference endpoint behind the Bedrock client, the JSON decoder
  applied to \<^verbatim>\<open>Response\<close>, and the loader of the AWS configuration.
\<close>

record env =
  http_Get :: "string \<Rightarrow> error + http_Response"
  HTML_Load :: "string \<Rightarrow> error + Document list"
  bedrock_InvokeModel :: "InvokeModelInput \<Rightarrow> error + InvokeModelOutput"
  json_Unmarshal :: "string \<Rightarrow> error + Response"
  LoadDefaultConfig :: "error option"

section \<open>Library functions fixed by the source\<close>

text \<open>
  \<^verbatim>\<open>fmt.Sprintf\<close> for the verbs the program's format uses: \<^verbatim>\<open>%s\<close> is replaced by the
  next operand, byte for byte (a missing operand prints \<^verbatim>\<open>%!s(MISSING)\<close>), \<^verbatim>\<open>%%\<close> is a
  percent sign, and every other byte is copied.
\<close>

fun Sprintf :: "string \<Rightarrow> string list \<Rightarrow> string" where
  "Sprintf [] args = []"
| "Sprintf [c] args = [c]"
| "Sprintf (c # d # fs) args =
     (if c = CHR ''%'' \<and> d = CHR ''s'' then
        (case args of
           [] \<Rightarrow> ''%!s(MISSING)'' @ Sprintf fs []
         | a # as \<Rightarrow> a @ Sprintf fs as)
      else if c = CHR ''%'' \<and> d = CHR ''%'' then CHR ''%'' # Sprintf fs args
      else c # Sprintf (d # fs) args)"

text \<open>
  The JSON encoder coerces every string it writes to valid UTF-8: it walks the string with
  \<^verbatim>\<open>utf8.DecodeRuneInString\<close> and writes the replacement character U+FFFD (the bytes
  EF BF BD) for each byte at which no well-formed encoding starts. \<open>rune_size\<close> is
  the width of the encoding at the head of a string, following the decoder's table of
  first bytes and accepted ranges of the second byte; \<open>toValidUTF8_from k\<close> copies the
  \<open>k\<close> bytes still owed to the current rune and then goes on rune by rune.
  \<open>ValidString\<close> is \<^verbatim>\<open>utf8.ValidString\<close>.
\<close>

definition byte_in :: "nat \<Rightarrow> nat \<Rightarrow> char \<Rightarrow> bool" where
  "byte_in lo hi c \<longleftrightarrow> lo \<le> of_char c \<and> of_char c \<le> hi"

definition accept_range :: "char \<Rightarrow> nat \<times> nat" where
  "accept_range b0 =
     (if b0 = CHR 0xE0 then (0xA0, 0xBF)
      else if b0 = CHR 0xED then (0x80, 0x9F)
      else if b0 = CHR 0xF0 then (0x90, 0xBF)
      else if b0 = CHR 0xF4 then (0x80, 0x8F)
      else (0x80, 0xBF))"

fun accepts :: "(nat \<times> nat) list \<Rightarrow> string \<Rightarrow> bool" where
  "accepts [] s = True"
| "accepts (r # ranges) [] = False"
| "accepts (r # ranges) (c # cs) = (byte_in (fst r) (snd r) c \<and> accepts ranges cs)"

definition rune_size :: "string \<Rightarrow> nat option" where
  "rune_size s =
     (case s of
        [] \<Rightarrow> None
      | b0 # rest \<Rightarrow>
          if byte_in 0x00 0x7F b0 then Some 1
          else if byte_in 0xC2 0xDF b0 then
            (if accepts [accept_range b0] rest then Some 2 else None)
          else if byte_in 0xE0 0xEF b0 then
            (if accepts [accept_range b0, (0x80, 0xBF)] rest then Some 3 else None)
          else if byte_in 0xF0 0xF4 b0 then
            (if accepts [accept_range b0, (0x80, 0xBF), (0x80, 0xBF)] rest then Some 4 else None)
          else None)"

fun toValidUTF8_from :: "nat \<Rightarrow> string \<Rightarrow> string" where
  "toValidUTF8_from k [] = []"
| "toValidUTF8_from (Suc k) (c # cs) = c # toValidUTF8_from k cs"
| "toValidUTF8_from 0 (c # cs) =
     (case rune_size (c # cs) of
        None \<Rightarrow> [CHR 0xEF, CHR 0xBF, CHR 0xBD] @ toValidUTF8_from 0 cs
      | Some n \<Rightarrow> c # toValidUTF8_from (n - 1) cs)"

definition toValidUTF8 :: "string \<Rightarrow> string" where
  "toValidUTF8 s = toValidUTF8_from 0 s"

fun ValidString_from :: "nat \<Rightarrow> string \<Rightarrow> bool" where
  "ValidString_from k [] = (k = 0)"
| "ValidString_from (Suc k) (c # cs) = ValidString_from k cs"
| "ValidString_from 0 (c # cs) =
     (case rune_size (c # cs) of
        None \<Rightarrow> False
      | Some n \<Rightarrow> ValidString_from (n - 1) cs)"

definition ValidString :: "string \<Rightarrow> bool" where
  "ValidString s = ValidString_from 0 s"

definition stringEncoder :: "string \<Rightarrow> json" where
  "stringEncoder s = JString (toValidUTF8 s)"

text \<open>
  \<^verbatim>\<open>json.Marshal\<close> on a \<^verbatim>\<open>Request\<close>, as the struct tags fix it: the members are
  written in the order of the fields, under the names of the tags; a field tagged
  \<^verbatim>\<open>omitempty\<close> is left out when it is empty (a number equal to 0, a slice of length 0);
  a float that is written must be finite; a string is written coerced to valid UTF-8.
\<close>

fun floatEncoder :: "float64 \<Rightarrow> error + json" where
  "floatEncoder (Finite q) = Inr (JNumber q)"
| "floatEncoder PosInf = Inl (UnsupportedValueError PosInf)"
| "floatEncoder NegInf = Inl (UnsupportedValueError NegInf)"
| "floatEncoder NaN = Inl (UnsupportedValueError NaN)"

definition intEncoder :: "64 word \<Rightarrow> json" where
  "intEncoder n = JNumber (of_int (sint n))"

definition omitempty_float :: "string \<Rightarrow> float64 \<Rightarrow> error + (string \<times> json) list" where
  "omitempty_float name f =
     (if f = Finite 0 then Inr []
      else case floatEncoder f of Inl err \<Rightarrow> Inl err | Inr j \<Rightarrow> Inr [(name, j)])"

definition omitempty_int :: "string \<Rightarrow> 64 word \<Rightarrow> (string \<times> json) list" where
  "omitempty_int name n = (if n = 0 then [] else [(name, intEncoder n)])"

definition omitempty_strings :: "string \<Rightarrow> string list \<Rightarrow> (string \<times> json) list" where
  "omitempty_strings name ss = (if length ss = 0 then [] else [(name, JArray (map stringEncoder ss))])"

definition json_Marshal :: "Request \<Rightarrow> error + json" where
  "json_Marshal r =
     (case omitempty_float ''temperature'' (Temperature r) of
        Inl err \<Rightarrow> Inl err
      | Inr temperature \<Rightarrow>
          (case omitempty_float ''top_p'' (TopP r) of
             Inl err \<Rightarrow> Inl err
           | Inr top_p \<Rightarrow>
               Inr (JObject
                 ([(''prompt'', stringEncoder (Prompt r)),
                   (''max_tokens_to_sample'', intEncoder (MaxTokensToSample r))]
                  @ temperature @ top_p
                  @ omitempty_int ''top_k'' (TopK r)
                  @ omitempty_strings ''stop_sequences'' (StopSequences r)))))"

section \<open>The program\<close>

text \<open>
  Every function returns its outcome and the events it caused. \<open>newLargeLanguageModel\<close>
  (lines 62-74): the Bedrock client it stores is the environment.
\<close>

definition newLargeLanguageModel :: "env \<Rightarrow> Model outcome \<times> event list" where
  "newLargeLanguageModel env =
     (case LoadDefaultConfig env of
        Some err \<Rightarrow> (Exits err, [LogFatal err])
      | None \<Rightarrow>
          (Returns \<lparr>CallbacksHandler = None, useHumanAssistantPrompt = True, model_ID = modelID\<rparr>,
           []))"

text \<open>\<open>getResponse\<close> (lines 165-183).\<close>

definition getResponse :: "Model \<Rightarrow> env \<Rightarrow> json \<Rightarrow> (error + Response) \<times> event list" where
  "getResponse m env payload =
     (let input = \<lparr>Body_in = payload, ModelId = model_ID m, ContentType = ''application/json''\<rparr> in
      case bedrock_InvokeModel env input of
        Inl err \<Rightarrow> (Inl err, [InvokeModel input])
      | Inr out \<Rightarrow>
          (case json_Unmarshal env (Body_out out) of
             Inl err \<Rightarrow> (Inl err, [InvokeModel input])
           | Inr resp \<Rightarrow> (Inr resp, [InvokeModel input])))"

text \<open>
  The loop of lines 100-103: the options are applied, in order, to a zero
  \<^verbatim>\<open>CallOptions\<close>.
\<close>

definition zero_CallOptions :: CallOptions where
  "zero_CallOptions =
     \<lparr>MaxTokens = 0, Temperature_opt = Finite 0, StopWords = [], TopK_opt = 0, TopP_opt = Finite 0\<rparr>"

fun apply_options :: "CallOptions \<Rightarrow> CallOption list \<Rightarrow> CallOptions" where
  "apply_options opts [] = opts"
| "apply_options opts (opt # options) = apply_options (opt opts) options"

text \<open>
  \<open>Generate\<close> (lines 95-134). \<^verbatim>\<open>prompts[0]\<close> on an empty slice is a run-time panic.
\<close>

definition Generate ::
  "Model \<Rightarrow> env \<Rightarrow> string list \<Rightarrow> CallOption list \<Rightarrow> Generation list outcome \<times> event list" where
  "Generate m env prompts options =
     (let started = (case CallbacksHandler m of
                       None \<Rightarrow> []
                     | Some h \<Rightarrow> [HandleLLMStart h prompts]);
          opts = apply_options zero_CallOptions options
      in case prompts of
           [] \<Rightarrow> (Panics ''runtime error: index out of range [0] with length 0'', started)
         | p # ps \<Rightarrow>
             (let request = \<lparr>Prompt = Sprintf format [p],
                             MaxTokensToSample = MaxTokens opts,
                             Temperature = Temperature_opt opts,
                             TopP = TopP_opt opts,
                             TopK = TopK_opt opts,
                             StopSequences = StopWords opts\<rparr>
              in case json_Marshal request of
                   Inl err \<Rightarrow> (Fails err, started)
                 | Inr payload \<Rightarrow>
                     (case getResponse m env payload of
                        (Inl err, sent) \<Rightarrow> (Fails err, started @ sent)
                      | (Inr resp, sent) \<Rightarrow>
                          (let generations = [\<lparr>Text = Completion resp\<rparr>];
                               ended = (case CallbacksHandler m of
                                          None \<Rightarrow> []
                                        | Some h \<Rightarrow> [HandleLLMEnd h [generations]])
                           in (Returns generations, started @ sent @ ended)))))"



text \<open>
  \<open>getDocsFromLink\<close> (lines 146-163). \<^verbatim>\<open>fmt.Println\<close> writes its operands separated by
  a space and ends the line. The deferred \<^verbatim>\<open>Body.Close\<close> runs when the function
  returns, not when \<^verbatim>\<open>log.Fatal\<close> ends the process.
\<close>

fun Sprint_operands :: "string list \<Rightarrow> string" where
  "Sprint_operands [] = []"
| "Sprint_operands [a] = a"
| "Sprint_operands (a # b # rest) = a @ '' '' @ Sprint_operands (b # rest)"

definition Println :: "string list \<Rightarrow> event" where
  "Println operands = Stdout (Sprint_operands operands @ ''\<newline>'')"

definition getDocsFromLink :: "env \<Rightarrow> string \<Rightarrow> Document list outcome \<times> event list" where
  "getDocsFromLink env link =
     (case http_Get env link of
        Inl err \<Rightarrow> (Fails err, [Println [''loading data from'', link], HttpGet link])
      | Inr resp \<Rightarrow>
          (case HTML_Load env (Body resp) of
             Inl err \<Rightarrow>
               (Exits err, [Println [''loading data from'', link], HttpGet link, LogFatal err])
           | Inr docs \<Rightarrow>
               (Returns docs,
                [Println [''loading data from'', link], HttpGet link,
                 Println [''successfully loaded data from'', link], BodyClose])))"



section \<open>Observations on a run\<close>

text \<open>
  The JSON documents sent to the inference endpoint, the classification of events, and
  what was written to standard output, all read off the events of a run.
\<close>

fun request_of :: "event \<Rightarrow> json list" where
  "request_of (InvokeModel input) = [Body_in input]"
| "request_of (HandleLLMStart h ps) = []"
| "request_of (HandleLLMEnd h gs) = []"
| "request_of (HttpGet link) = []"
| "request_of (Stdout s) = []"
| "request_of BodyClose = []"
| "request_of (LogFatal err) = []"

definition payloads :: "event list \<Rightarrow> json list" where
  "payloads evs = concat (map request_of evs)"

fun is_callback :: "event \<Rightarrow> bool" where
  "is_callback (HandleLLMStart h ps) = True"
| "is_callback (HandleLLMEnd h gs) = True"
| "is_callback (InvokeModel input) = False"
| "is_callback (HttpGet link) = False"
| "is_callback (Stdout s) = False"
| "is_callback BodyClose = False"
| "is_callback (LogFatal err) = False"

fun is_dispatch :: "event \<Rightarrow> bool" where
  "is_dispatch (InvokeModel input) = True"
| "is_dispatch (HandleLLMStart h ps) = False"
| "is_dispatch (HandleLLMEnd h gs) = False"
| "is_dispatch (HttpGet link) = False"
| "is_dispatch (Stdout s) = False"
| "is_dispatch BodyClose = False"
| "is_dispatch (LogFatal err) = False"



text \<open>The \<^verbatim>\<open>Request\<close> literal of lines 105-112, for the first prompt and the options.\<close>

definition request_for :: "string \<Rightarrow> CallOption list \<Rightarrow> Request" where
  "request_for p options =
     (let opts = apply_options zero_CallOptions options in
      \<lparr>Prompt = Sprintf format [p], MaxTokensToSample = MaxTokens opts,
       Temperature = Temperature_opt opts, TopP = TopP_opt opts, TopK = TopK_opt opts,
       StopSequences = StopWords opts\<rparr>)"

subsection \<open>Concrete environments and models\<close>

text \<open>
  An environment in which the article's server answers 404 with a small page and the
  endpoint answers \<^verbatim>\<open>{"completion":"hello"}\<close>; one in which the page cannot be parsed;
  one in which the endpoint answers \<^verbatim>\<open>{}\<close>, which the decoder reads as a
  \<^verbatim>\<open>Response\<close> with the empty completion. A model with a handler and one without,
  and the options \<^verbatim>\<open>main\<close> passes.
\<close>

definition mock_env :: env where
  "mock_env =
     \<lparr>http_Get = (\<lambda>link. Inr \<lparr>StatusCode = 404, Body = ''<p>gone</p>''\<rparr>),
      HTML_Load = (\<lambda>body. if body = [] then Inl (Library ''EOF'')
                           else Inr [\<lparr>PageContent = ''gone'', Metadata = []\<rparr>]),
      bedrock_InvokeModel = (\<lambda>input. Inr \<lparr>Body_out = ''{\"completion\":\"hello\"}''\<rparr>),
      json_Unmarshal = (\<lambda>body. if body = ''{\"completion\":\"hello\"}''
                                then Inr \<lparr>Completion = ''hello''\<rparr>
                                else Inl (Library ''unexpected end of JSON input'')),
      LoadDefaultConfig = None\<rparr>"

definition broken_html_env :: env where
  "broken_html_env = mock_env\<lparr>HTML_Load := (\<lambda>body. Inl (Library ''html: parse failure''))\<rparr>"


definition handled_model :: Model where
  "handled_model =
     \<lparr>CallbacksHandler = Some (Handler 1), useHumanAssistantPrompt = True, model_ID = modelID\<rparr>"

definition plain_model :: Model where
  "plain_model = \<lparr>CallbacksHandler = None, useHumanAssistantPrompt = True, model_ID = modelID\<rparr>"

definition main_options :: "CallOption list" where
  "main_options = [WithMaxTokens 500, WithTemperature (Finite (1 / 10))]"

section \<open>Basic facts\<close>

lemma Sprintf_format:
  "Sprintf format [X] = ''\<newline>\<newline>Human:'' @ X @ ''\<newline>\<newline>Assistant:''"
  by (simp add: format_def)

lemma accepts_append: "accepts ranges cs \<Longrightarrow> accepts ranges (cs @ Y)"
  by (induction ranges cs rule: accepts.induct) simp_all

lemma rune_size_append:
  "rune_size (c # cs) = Some n \<Longrightarrow> rune_size (c # cs @ Y) = Some n"
  by (auto simp: rune_size_def accepts_append simp del: accepts.simps split: if_splits)

lemma toValidUTF8_from_append:
  "ValidString_from k X \<Longrightarrow> toValidUTF8_from k (X @ Y) = X @ toValidUTF8_from 0 Y"
proof (induction X arbitrary: k)
  case Nil
  then show ?case by simp
next
  case (Cons c cs)
  show ?case
  proof (cases k)
    case 0
    with Cons.prems obtain n where n: "rune_size (c # cs) = Some n"
      and v: "ValidString_from (n - 1) cs"
      by (auto split: option.splits)
    from rune_size_append [OF n] have "rune_size (c # cs @ Y) = Some n" .
    with 0 Cons.IH [OF v] show ?thesis by simp
  next
    case (Suc j)
    with Cons show ?thesis by simp
  qed
qed

lemma toValidUTF8_template:
  assumes "ValidString X"
  shows "toValidUTF8 (''\<newline>\<newline>Human:'' @ X @ ''\<newline>\<newline>Assistant:'') =
           ''\<newline>\<newline>Human:'' @ X @ ''\<newline>\<newline>Assistant:''"
proof -
  have pre: "ValidString_from 0 ''\<newline>\<newline>Human:''"
    by (simp add: rune_size_def byte_in_def)
  have post: "toValidUTF8_from 0 ''\<newline>\<newline>Assistant:'' = ''\<newline>\<newline>Assistant:''"
    by (simp add: rune_size_def byte_in_def)
  from assms have X: "ValidString_from 0 X"
    by (simp add: ValidString_def)
  have "toValidUTF8_from 0 (''\<newline>\<newline>Human:'' @ (X @ ''\<newline>\<newline>Assistant:'')) =
          ''\<newline>\<newline>Human:'' @ toValidUTF8_from 0 (X @ ''\<newline>\<newline>Assistant:'')"
    by (rule toValidUTF8_from_append [OF pre])
  also have "toValidUTF8_from 0 (X @ ''\<newline>\<newline>Assistant:'') =
          X @ toValidUTF8_from 0 ''\<newline>\<newline>Assistant:''"
    by (rule toValidUTF8_from_append [OF X])
  finally show ?thesis
    by (simp only: toValidUTF8_def post)
qed

lemma toValidUTF8_X:
  "toValidUTF8 ''\<newline>\<newline>Human:X\<newline>\<newline>Assistant:'' = ''\<newline>\<newline>Human:X\<newline>\<newline>Assistant:''"
  by (simp add: toValidUTF8_def rune_size_def byte_in_def)

lemma json_Marshal_fields:
  assumes "json_Marshal r = Inr payload"
  shows "json_field ''prompt'' payload = Some (JString (toValidUTF8 (Prompt r)))"
    and "json_field ''max_tokens_to_sample'' payload = Some (intEncoder (MaxTokensToSample r))"
    and "json_field ''temperature'' payload = None \<longleftrightarrow> Temperature r = Finite 0"
    and "json_field ''top_p'' payload = None \<longleftrightarrow> TopP r = Finite 0"
    and "json_field ''top_k'' payload = None \<longleftrightarrow> TopK r = 0"
    and "json_field ''stop_sequences'' payload = None \<longleftrightarrow> StopSequences r = []"
  using assms
  by (auto simp: json_Marshal_def omitempty_float_def omitempty_int_def omitempty_strings_def
      stringEncoder_def split: sum.splits if_splits)

lemma Generate_Nil:
  "Generate m env [] options =
     (Panics ''runtime error: index out of range [0] with length 0'',
      case CallbacksHandler m of None \<Rightarrow> [] | Some h \<Rightarrow> [HandleLLMStart h []])"
  by (simp add: Generate_def Let_def)

lemma payloads_Generate:
  "payloads (snd (Generate m env (p # ps) options)) =
     (case json_Marshal (request_for p options) of Inl err \<Rightarrow> [] | Inr payload \<Rightarrow> [payload])"
  by (simp add: Generate_def Let_def getResponse_def payloads_def request_for_def
      split: sum.splits option.splits)



section \<open>The Model Adapter\<close>

text \<open>
  C1 as it is stated, for every prompt, fails on a prompt that is not valid UTF-8: for the
  one-byte prompt FF the \<^verbatim>\<open>prompt\<close> member sent holds the replacement character
  (EF BF BD) in its place, not the prompt.
\<close>

theorem Generate_payload_prompt_invalid_utf8:
  "payloads (snd (Generate plain_model mock_env [[CHR 0xFF]] [])) =
     [JObject [(''prompt'', JString (''\<newline>\<newline>Human:'' @ [CHR 0xEF, CHR 0xBF, CHR 0xBD]
                                      @ ''\<newline>\<newline>Assistant:'')),
               (''max_tokens_to_sample'', intEncoder 0)]] \<and>
   json_field ''prompt''
     (JObject [(''prompt'', JString (''\<newline>\<newline>Human:'' @ [CHR 0xEF, CHR 0xBF, CHR 0xBD]
                                      @ ''\<newline>\<newline>Assistant:'')),
               (''max_tokens_to_sample'', intEncoder 0)]) \<noteq>
     Some (JString (''\<newline>\<newline>Human:'' @ [CHR 0xFF] @ ''\<newline>\<newline>Assistant:''))"
  by (simp add: payloads_Generate request_for_def zero_CallOptions_def json_Marshal_def
      omitempty_float_def omitempty_int_def omitempty_strings_def stringEncoder_def format_def
      toValidUTF8_def rune_size_def byte_in_def)

text \<open>
  C1, amended. For every prompt \<open>X\<close> that is valid UTF-8 (and whatever follows it in the
  prompt list), every JSON document \<open>Generate\<close> sends to the endpoint has a
  \<^verbatim>\<open>prompt\<close> member equal to the string made of two newlines, \<^verbatim>\<open>Human:\<close>, \<open>X\<close>
  unchanged, two newlines and \<^verbatim>\<open>Assistant:\<close>.
\<close>

theorem Generate_payload_prompt_utf8:
  assumes "ValidString X"
  shows "\<forall>payload \<in> set (payloads (snd (Generate m env (X # ps) options))).
           json_field ''prompt'' payload =
             Some (JString (''\<newline>\<newline>Human:'' @ X @ ''\<newline>\<newline>Assistant:''))"
  using json_Marshal_fields(1) [of "request_for X options"] toValidUTF8_template [OF assms]
  by (auto simp: payloads_Generate request_for_def Let_def Sprintf_format split: sum.splits)

theorem Generate_payload_prompt_utf8_witness:
  "ValidString [CHR 0xC3, CHR 0xA9] \<and>
   payloads (snd (Generate plain_model mock_env [[CHR 0xC3, CHR 0xA9]] main_options)) =
     [JObject [(''prompt'', JString (''\<newline>\<newline>Human:'' @ [CHR 0xC3, CHR 0xA9]
                                      @ ''\<newline>\<newline>Assistant:'')),
               (''max_tokens_to_sample'', intEncoder 500),
               (''temperature'', JNumber (1 / 10))]] \<and>
   json_field ''prompt''
     (JObject [(''prompt'', JString (''\<newline>\<newline>Human:'' @ [CHR 0xC3, CHR 0xA9]
                                      @ ''\<newline>\<newline>Assistant:'')),
               (''max_tokens_to_sample'', intEncoder 500),
               (''temperature'', JNumber (1 / 10))]) =
     Some (JString (''\<newline>\<newline>Human:'' @ [CHR 0xC3, CHR 0xA9] @ ''\<newline>\<newline>Assistant:''))"
  using Generate_payload_prompt_utf8
    [of "[CHR 0xC3, CHR 0xA9]" plain_model mock_env "[]" main_options]
  by (simp add: payloads_Generate request_for_def main_options_def WithMaxTokens_def
      WithTemperature_def zero_CallOptions_def json_Marshal_def omitempty_float_def
      omitempty_int_def omitempty_strings_def stringEncoder_def format_def
      ValidString_def toValidUTF8_def rune_size_def accept_range_def byte_in_def)

text \<open>
  C2. When the endpoint answers the request \<open>Generate\<close> sent and the body of the answer
  deserializes to a \<^verbatim>\<open>Response\<close> with completion \<open>c\<close>, \<open>Generate\<close> returns, without
  error, the single generation whose text is \<open>c\<close>.
\<close>

theorem Generate_returns_completion:
  assumes "InvokeModel input \<in> set (snd (Generate m env prompts options))"
    and "bedrock_InvokeModel env input = Inr out"
    and "json_Unmarshal env (Body_out out) = Inr resp"
  shows "fst (Generate m env prompts options) = Returns [\<lparr>Text = Completion resp\<rparr>]"
  using assms
  by (auto simp: Generate_def Let_def getResponse_def split: list.splits sum.splits option.splits)

theorem Generate_returns_completion_witness:
  "InvokeModel
     \<lparr>Body_in = JObject [(''prompt'', JString ''\<newline>\<newline>Human:X\<newline>\<newline>Assistant:''),
                         (''max_tokens_to_sample'', intEncoder 500),
                         (''temperature'', JNumber (1 / 10))],
      ModelId = ''anthropic.claude-v2'', ContentType = ''application/json''\<rparr>
     \<in> set (snd (Generate plain_model mock_env [''X''] main_options)) \<and>
   json_Unmarshal mock_env ''{\"completion\":\"hello\"}'' = Inr \<lparr>Completion = ''hello''\<rparr> \<and>
   fst (Generate plain_model mock_env [''X''] main_options) = Returns [\<lparr>Text = ''hello''\<rparr>]"
  using Generate_returns_completion
    [of "\<lparr>Body_in = JObject [(''prompt'', JString ''\<newline>\<newline>Human:X\<newline>\<newline>Assistant:''),
                             (''max_tokens_to_sample'', intEncoder 500),
                             (''temperature'', JNumber (1 / 10))],
          ModelId = ''anthropic.claude-v2'', ContentType = ''application/json''\<rparr>"
        plain_model mock_env "[''X'']" main_options
        "\<lparr>Body_out = ''{\"completion\":\"hello\"}''\<rparr>" "\<lparr>Completion = ''hello''\<rparr>"]
  by (simp add: Generate_def Let_def getResponse_def plain_model_def mock_env_def main_options_def
      WithMaxTokens_def WithTemperature_def zero_CallOptions_def json_Marshal_def
      omitempty_float_def omitempty_int_def omitempty_strings_def stringEncoder_def
      toValidUTF8_X format_def modelID_def)

text \<open>
  C3. A call of \<open>Generate\<close> that returns without error has sent one request and returns
  a list of exactly one generation.
\<close>

theorem Generate_one_generation:
  assumes "Generate m env prompts options = (Returns generations, evs)"
  shows "length generations = 1 \<and> length (payloads evs) = 1"
  using assms
  by (auto simp: Generate_def Let_def getResponse_def payloads_def
      split: list.splits sum.splits option.splits)

theorem Generate_one_generation_witness:
  "fst (Generate plain_model mock_env [''X''] main_options) = Returns [\<lparr>Text = ''hello''\<rparr>] \<and>
   length [\<lparr>Text = ''hello''\<rparr>] = 1 \<and>
   length (payloads (snd (Generate plain_model mock_env [''X''] main_options))) = 1"
  using Generate_one_generation
    [of plain_model mock_env "[''X'']" main_options "[\<lparr>Text = ''hello''\<rparr>]"
        "snd (Generate plain_model mock_env [''X''] main_options)"]
  by (simp add: Generate_def Let_def getResponse_def plain_model_def mock_env_def main_options_def
      WithMaxTokens_def WithTemperature_def zero_CallOptions_def json_Marshal_def
      omitempty_float_def omitempty_int_def omitempty_strings_def stringEncoder_def
      toValidUTF8_X format_def modelID_def)

text \<open>
  C4. With a callback handler \<open>h\<close> configured, the events of a call of \<open>Generate\<close> are:
  first the start notification of \<open>h\<close>, once; then the requests sent (one when the call
  returns without error); then the end notification of \<open>h\<close>, once, when the call returns
  without error, and nothing when it does not. There is no other notification. With no
  handler configured the call notifies nobody.
\<close>

theorem Generate_callbacks:
  "(case CallbacksHandler m of
      None \<Rightarrow> list_all (\<lambda>e. \<not> is_callback e) (snd (Generate m env prompts options))
    | Some h \<Rightarrow>
        (\<exists>sent. snd (Generate m env prompts options) =
                  [HandleLLMStart h prompts] @ sent @
                  (case fst (Generate m env prompts options) of
                     Returns generations \<Rightarrow> [HandleLLMEnd h [generations]]
                   | Fails err \<Rightarrow> [] | Panics msg \<Rightarrow> [] | Exits err \<Rightarrow> [])
                \<and> list_all is_dispatch sent
                \<and> ((\<exists>generations. fst (Generate m env prompts options) = Returns generations)
                     \<longrightarrow> length sent = 1)))"
  by (auto simp: Generate_def Let_def getResponse_def split: list.splits sum.splits option.splits)

theorem Generate_callbacks_witness:
  "CallbacksHandler handled_model = Some (Handler 1) \<and>
   snd (Generate handled_model mock_env [''X''] []) =
     [HandleLLMStart (Handler 1) [''X''],
      InvokeModel
        \<lparr>Body_in = JObject [(''prompt'', JString ''\<newline>\<newline>Human:X\<newline>\<newline>Assistant:''),
                            (''max_tokens_to_sample'', intEncoder 0)],
         ModelId = ''anthropic.claude-v2'', ContentType = ''application/json''\<rparr>,
      HandleLLMEnd (Handler 1) [[\<lparr>Text = ''hello''\<rparr>]]]"
  using Generate_callbacks [of handled_model mock_env "[''X'']" "[]"]
  by (simp add: Generate_def Let_def getResponse_def handled_model_def mock_env_def
      zero_CallOptions_def json_Marshal_def
      omitempty_float_def omitempty_int_def omitempty_strings_def stringEncoder_def
      toValidUTF8_X format_def modelID_def)




text \<open>
  C9. On the empty prompt list \<open>Generate\<close> panics with the index error of the runtime,
  whatever the options and the environment: it returns no error value and sends no
  request.
\<close>

theorem Generate_Nil_panics:
  "fst (Generate m env [] options) =
     Panics ''runtime error: index out of range [0] with length 0'' \<and>
   payloads (snd (Generate m env [] options)) = []"
  by (cases "CallbacksHandler m") (simp_all add: Generate_Nil payloads_def)

text \<open>
  C10. Every JSON document \<open>Generate\<close> sends has the members \<^verbatim>\<open>prompt\<close> and
  \<^verbatim>\<open>max_tokens_to_sample\<close>; it has no member \<^verbatim>\<open>temperature\<close>, \<^verbatim>\<open>top_p\<close>,
  \<^verbatim>\<open>top_k\<close> or \<^verbatim>\<open>stop_sequences\<close> exactly when the corresponding option is 0, or
  the empty list. So a temperature, top_p or top_k of 0 that the caller asks for is never
  sent.
\<close>

theorem Generate_payload_omitempty:
  "\<forall>payload \<in> set (payloads (snd (Generate m env prompts options))).
     json_field ''prompt'' payload \<noteq> None \<and>
     json_field ''max_tokens_to_sample'' payload \<noteq> None \<and>
     (json_field ''temperature'' payload = None
        \<longleftrightarrow> Temperature_opt (apply_options zero_CallOptions options) = Finite 0) \<and>
     (json_field ''top_p'' payload = None
        \<longleftrightarrow> TopP_opt (apply_options zero_CallOptions options) = Finite 0) \<and>
     (json_field ''top_k'' payload = None
        \<longleftrightarrow> TopK_opt (apply_options zero_CallOptions options) = 0) \<and>
     (json_field ''stop_sequences'' payload = None
        \<longleftrightarrow> StopWords (apply_options zero_CallOptions options) = [])"
proof (cases prompts)
  case Nil
  then show ?thesis
    by (cases "CallbacksHandler m") (simp_all add: Generate_Nil payloads_def)
next
  case (Cons p ps)
  show ?thesis
  proof (cases "json_Marshal (request_for p options)")
    case (Inl err)
    with Cons show ?thesis by (simp add: payloads_Generate)
  next
    case (Inr payload)
    from json_Marshal_fields [OF Inr] Cons Inr show ?thesis
      by (simp add: payloads_Generate request_for_def Let_def)
  qed
qed

theorem Generate_payload_omitempty_witness:
  "payloads (snd (Generate plain_model mock_env [''X'']
                    [WithMaxTokens 500, WithTemperature (Finite 0)])) =
     [JObject [(''prompt'', JString ''\<newline>\<newline>Human:X\<newline>\<newline>Assistant:''),
               (''max_tokens_to_sample'', intEncoder 500)]] \<and>
   json_field ''temperature''
     (JObject [(''prompt'', JString ''\<newline>\<newline>Human:X\<newline>\<newline>Assistant:''),
               (''max_tokens_to_sample'', intEncoder 500)]) = None \<and>
   Temperature_opt (apply_options zero_CallOptions [WithMaxTokens 500, WithTemperature (Finite 0)])
     = Finite 0"
  using Generate_payload_omitempty
    [of plain_model mock_env "[''X'']" "[WithMaxTokens 500, WithTemperature (Finite 0)]"]
  by (simp add: payloads_Generate request_for_def WithMaxTokens_def
      WithTemperature_def zero_CallOptions_def json_Marshal_def omitempty_float_def
      omitempty_int_def omitempty_strings_def stringEncoder_def toValidUTF8_X format_def)

section \<open>The Document Fetcher\<close>

text \<open>
  C6. A fetch must hand an error back to its caller when the HTTP request fails and when
  the HTML cannot be parsed. \<open>getDocsFromLink\<close> does so for the HTTP request; when the
  loader fails it ends the process through \<^verbatim>\<open>log.Fatal\<close> instead: on a page that
  cannot be parsed the caller gets nothing back, and the deferred close of the body does
  not run.
\<close>

theorem getDocsFromLink_parse_failure:
  "getDocsFromLink broken_html_env ''https://example.org'' =
     (Exits (Library ''html: parse failure''),
      [Stdout ''loading data from https://example.org\<newline>'', HttpGet ''https://example.org'',
       LogFatal (Library ''html: parse failure'')])"
  by (simp add: getDocsFromLink_def broken_html_env_def mock_env_def Println_def)

text \<open>
  C7. Once the HTTP client has returned a response, its status code plays no part: the
  fetch with any other status code in that response runs the same, and its outcome is
  decided by the HTML loader on the body alone (the documents when it succeeds), never an
  error returned for the status.
\<close>

theorem getDocsFromLink_ignores_status:
  assumes "http_Get env link = Inr resp"
  shows "getDocsFromLink
           (env\<lparr>http_Get := (http_Get env)(link := Inr (resp\<lparr>StatusCode := code\<rparr>))\<rparr>) link
           = getDocsFromLink env link
         \<and> fst (getDocsFromLink env link) =
             (case HTML_Load env (Body resp) of Inl err \<Rightarrow> Exits err | Inr docs \<Rightarrow> Returns docs)"
  using assms by (simp add: getDocsFromLink_def split: sum.splits)

theorem getDocsFromLink_ignores_status_witness:
  "http_Get mock_env ''https://example.org'' = Inr \<lparr>StatusCode = 404, Body = ''<p>gone</p>''\<rparr> \<and>
   fst (getDocsFromLink mock_env ''https://example.org'') =
     Returns [\<lparr>PageContent = ''gone'', Metadata = []\<rparr>]"
  using getDocsFromLink_ignores_status
    [of mock_env "''https://example.org''" "\<lparr>StatusCode = 404, Body = ''<p>gone</p>''\<rparr>" 200]
  by (simp add: mock_env_def)

end
